theory Spec2Isabelle
  imports Complex_Main
begin

section \<open>divminder-crawler: data model and operations\<close>

text \<open>
  Go strings are byte sequences: they are modelled as \<open>string\<close> (a list of 8-bit
  characters). Functions of Go's standard library that the repository calls
  (\<open>crypto/md5\<close>, \<open>encoding/json\<close>, \<open>strconv.ParseFloat\<close>, the HTTP client) are taken
  as parameters of the functions that call them, written first in the argument list.
\<close>

subsection \<open>internal/cache/file\_cache.go: cache keys\<close>

text \<open>
  \<^verbatim>\<open>type FileCache struct { cacheDir string; ttl time.Duration; logger *logrus.Logger }\<close>
  The duration is a count of nanoseconds. The logger is left out.
\<close>

record FileCache =
  cacheDir :: string
  ttl :: int

text \<open>The verb \<^verbatim>\<open>%x\<close> of \<open>fmt\<close> applied to a byte array: two lowercase hexadecimal
  digits for each byte.\<close>

definition hexdigit :: "nat \<Rightarrow> char" where
  "hexdigit n = ''0123456789abcdef'' ! (n mod 16)"

definition hex_byte :: "char \<Rightarrow> string" where
  "hex_byte c = [hexdigit (of_char c div 16), hexdigit (of_char c mod 16)]"

definition fmt_hex :: "string \<Rightarrow> string" where
  "fmt_hex bs = concat (map hex_byte bs)"



subsection \<open>The optimized batch runner: worker and retry loop\<close>

text \<open>
  \<^verbatim>\<open>const ( maxConcurrent = 5; retryAttempts = 2 // Number of retry attempts for failed scrapes )\<close>
\<close>

definition retryAttempts :: int where
  "retryAttempts = 2"

text \<open>
  What a worker does, in order: the scrapes it starts, the retry lines it logs, its
  sleeps (in milliseconds) and the results it sends. The result of a scrape is a pair
  \<open>(history, err)\<close> as in Go, \<open>None\<close> standing for \<open>nil\<close>.
\<close>

datatype 'h worker_event =
    LogScraping int string
  | Scrape string
  | LogRetry int int string
  | Sleep nat
  | Send string "'h option" "string option"

text \<open>
  The scraper is an oracle: \<open>scr n symbol\<close> is what the \<open>n\<close>-th call of
  \<^verbatim>\<open>scraper.ScrapeDividendHistory\<close> made by this worker returns for \<open>symbol\<close>.
  The state of the loop is the attempt counter, the current \<open>(history, err)\<close> and the
  events so far (the number of scrapes so far is counted from them).
\<close>

definition scrapes_in :: "'h worker_event list \<Rightarrow> nat" where
  "scrapes_in tr = length (filter (\<lambda>e. case e of Scrape _ \<Rightarrow> True | _ \<Rightarrow> False) tr)"

function retry_loop ::
  "(nat \<Rightarrow> string \<Rightarrow> 'h option \<times> string option) \<Rightarrow> int \<Rightarrow> string \<Rightarrow> int \<Rightarrow>
   ('h option \<times> string option) \<Rightarrow> 'h worker_event list \<Rightarrow>
   ('h option \<times> string option) \<times> 'h worker_event list" where
  "retry_loop scr wid symbol attempt res tr =
     (if attempt < retryAttempts then
        (let res' = scr (scrapes_in tr) symbol;
             tr1 = tr @ [Scrape symbol]
         in if snd res' = None then (res', tr1)
            else if attempt < retryAttempts - 1
              then retry_loop scr wid symbol (attempt + 1) res'
                     (tr1 @ [LogRetry wid (attempt + 1) symbol, Sleep 2000])
              else retry_loop scr wid symbol (attempt + 1) res' tr1)
      else (res, tr))"
  by pat_completeness auto
termination
  by (relation "measure (\<lambda>(scr, wid, symbol, attempt, res, tr). nat (retryAttempts - attempt))") auto

declare retry_loop.simps [simp del]

text \<open>The body of \<^verbatim>\<open>for symbol := range jobs\<close> for one symbol, and the loop over the
  symbols this worker receives from the channel.\<close>

definition worker_job ::
  "(nat \<Rightarrow> string \<Rightarrow> 'h option \<times> string option) \<Rightarrow> int \<Rightarrow> 'h worker_event list \<Rightarrow> string \<Rightarrow>
   'h worker_event list" where
  "worker_job scr wid tr symbol =
     (let (res, tr1) = retry_loop scr wid symbol 0 (None, None) (tr @ [LogScraping wid symbol])
      in tr1 @ [Send symbol (fst res) (snd res), Sleep 500])"

definition worker ::
  "(nat \<Rightarrow> string \<Rightarrow> 'h option \<times> string option) \<Rightarrow> int \<Rightarrow> string list \<Rightarrow> 'h worker_event list" where
  "worker scr wid jobs = foldl (worker_job scr wid) [] jobs"

subsection \<open>Go's \<open>strings\<close> package, on byte strings\<close>


definition HasPrefix :: "string \<Rightarrow> string \<Rightarrow> bool" where
  "HasPrefix s p = (take (length p) s = p)"

definition HasSuffix :: "string \<Rightarrow> string \<Rightarrow> bool" where
  "HasSuffix s p = HasPrefix (rev s) (rev p)"


definition TrimSuffix :: "string \<Rightarrow> string \<Rightarrow> string" where
  "TrimSuffix s p = (if HasSuffix s p then take (length s - length p) s else s)"












definition isDigit :: "char \<Rightarrow> bool" where
  "isDigit c = (of_char c \<ge> (48::nat) \<and> of_char c \<le> (57::nat))"

definition digit_val :: "char \<Rightarrow> nat" where
  "digit_val c = of_char c - 48"

subsection \<open>Go's \<open>time\<close> package\<close>

text \<open>
  A \<^verbatim>\<open>time.Time\<close> is modelled as the instant it denotes: the number of nanoseconds since
  January 1 of year 1, 00:00:00 UTC, which is Go's zero time. Every location is taken
  to be UTC, and the monotonic clock reading of \<^verbatim>\<open>time.Now()\<close> is left out. The calendar
  is the proleptic Gregorian one, as in Go.
\<close>

type_synonym Time = int

definition ns_per_day :: int where
  "ns_per_day = 86400 * 1000000000"

definition IsZero :: "Time \<Rightarrow> bool" where
  "IsZero t = (t = 0)"

definition After :: "Time \<Rightarrow> Time \<Rightarrow> bool" where
  "After t u = (u < t)"

definition Before :: "Time \<Rightarrow> Time \<Rightarrow> bool" where
  "Before t u = (t < u)"

definition isLeap :: "int \<Rightarrow> bool" where
  "isLeap year = (year mod 4 = 0 \<and> (year mod 400 = 0 \<or> year mod 100 \<noteq> 0))"

text \<open>Days before the first day of a month (1 to 12, and 13 for the end of the year) in
  a year that is not a leap year.\<close>

definition daysBefore :: "int \<Rightarrow> int" where
  "daysBefore m = [0, 31, 59, 90, 120, 151, 181, 212, 243, 273, 304, 334, 365] ! nat (m - 1)"

definition daysIn :: "int \<Rightarrow> int \<Rightarrow> int" where
  "daysIn m year = (if m = 2 \<and> isLeap year then 29 else daysBefore (m + 1) - daysBefore m)"

text \<open>Days before the first day of a month in a given year.\<close>

definition month_start :: "int \<Rightarrow> int \<Rightarrow> int" where
  "month_start year m = daysBefore m + (if isLeap year \<and> 3 \<le> m then 1 else 0)"

text \<open>Days from January 1 of year 1 to January 1 of the given year.\<close>

definition days_before_year :: "int \<Rightarrow> int" where
  "days_before_year year =
     365 * (year - 1) + (year - 1) div 4 - (year - 1) div 100 + (year - 1) div 400"

text \<open>
  \<^verbatim>\<open>time.Date(year, month, day, hour, min, sec, nsec, time.UTC)\<close>: a month outside 1 to 12
  moves the year; days, hours, minutes, seconds and nanoseconds outside their ranges
  carry over, which on an instant is plain addition.
\<close>

definition Date :: "int \<Rightarrow> int \<Rightarrow> int \<Rightarrow> int \<Rightarrow> int \<Rightarrow> int \<Rightarrow> int \<Rightarrow> Time" where
  "Date year month day hour minute sec nsec =
     (let m0 = month - 1;
          y = year + m0 div 12;
          m = m0 mod 12 + 1;
          d = days_before_year y + month_start y m + (day - 1)
      in (((d * 24 + hour) * 60 + minute) * 60 + sec) * 1000000000 + nsec)"

text \<open>The year and the day of the year (from 0) of a day number, by cycles of 400, 100,
  4 and 1 years.\<close>

definition year_yday :: "int \<Rightarrow> int \<times> int" where
  "year_yday d =
     (let n400 = d div 146097;
          d1 = d mod 146097;
          n100 = min 3 (d1 div 36524);
          d2 = d1 - 36524 * n100;
          n4 = d2 div 1461;
          d3 = d2 mod 1461;
          n1 = min 3 (d3 div 365);
          yday = d3 - 365 * n1
      in (400 * n400 + 100 * n100 + 4 * n4 + n1 + 1, yday))"

text \<open>The month (1 to 12) and the day of the month of a day of the year.\<close>

definition month_day :: "int \<Rightarrow> int \<Rightarrow> int \<times> int" where
  "month_day year yday =
     (let m = int (length (filter (\<lambda>k. month_start year k \<le> yday) [1 .. 12]))
      in (m, yday - month_start year m + 1))"

definition Year :: "Time \<Rightarrow> int" where
  "Year t = fst (year_yday (t div ns_per_day))"

definition Month :: "Time \<Rightarrow> int" where
  "Month t = (let (y, yd) = year_yday (t div ns_per_day) in fst (month_day y yd))"

definition Day :: "Time \<Rightarrow> int" where
  "Day t = (let (y, yd) = year_yday (t div ns_per_day) in snd (month_day y yd))"

text \<open>\<^verbatim>\<open>t.AddDate(years, months, days)\<close>: the date of \<open>t\<close> with the numbers added, at the
  same time of day, normalised by \<open>Date\<close>.\<close>

definition AddDate :: "Time \<Rightarrow> int \<Rightarrow> int \<Rightarrow> int \<Rightarrow> Time" where
  "AddDate t years months days =
     (let r = t mod ns_per_day;
          hour = r div 3600000000000;
          minute = (r mod 3600000000000) div 60000000000;
          sec = (r mod 60000000000) div 1000000000;
          nsec = r mod 1000000000
      in Date (Year t + years) (Month t + months) (Day t + days) hour minute sec nsec)"

text \<open>\<^verbatim>\<open>t.Add(d)\<close> for a duration in nanoseconds.\<close>

definition Add :: "Time \<Rightarrow> int \<Rightarrow> Time" where
  "Add t d = t + d"

subsection \<open>\<^verbatim>\<open>time.Parse\<close> for the layouts of the repository\<close>

text \<open>
  The layouts used are built from the reference elements \<^verbatim>\<open>01\<close>, \<^verbatim>\<open>1\<close> (month),
  \<^verbatim>\<open>02\<close>, \<^verbatim>\<open>2\<close> (day), \<^verbatim>\<open>2006\<close>, \<^verbatim>\<open>06\<close> (year), \<^verbatim>\<open>Jan\<close>, \<^verbatim>\<open>January\<close> and
  literal text. Only these elements are recognised here; the other elements of Go's
  layouts (hours, zones, fractions) occur in none of them.
\<close>

datatype layout_std =
    stdLongMonth | stdMonth | stdNumMonth | stdZeroMonth
  | stdDay | stdZeroDay | stdLongYear | stdYear

datatype layout_chunk = Std layout_std | Lit string

definition lit_cons :: "char \<Rightarrow> layout_chunk list \<Rightarrow> layout_chunk list" where
  "lit_cons c cs = (case cs of Lit p # r \<Rightarrow> Lit (c # p) # r | _ \<Rightarrow> Lit [c] # cs)"

text \<open>The chunks of a layout, left to right. The first argument counts the characters
  still to skip because they belong to the element just recognised.\<close>

fun layout_chunks :: "nat \<Rightarrow> string \<Rightarrow> layout_chunk list" where
  "layout_chunks k [] = []"
| "layout_chunks (Suc k) (c # cs) = layout_chunks k cs"
| "layout_chunks 0 (c # cs) =
     (if HasPrefix (c # cs) ''January'' then Std stdLongMonth # layout_chunks 6 cs
      else if HasPrefix (c # cs) ''Jan'' then Std stdMonth # layout_chunks 2 cs
      else if HasPrefix (c # cs) ''01'' then Std stdZeroMonth # layout_chunks 1 cs
      else if HasPrefix (c # cs) ''02'' then Std stdZeroDay # layout_chunks 1 cs
      else if HasPrefix (c # cs) ''06'' then Std stdYear # layout_chunks 1 cs
      else if HasPrefix (c # cs) ''2006'' then Std stdLongYear # layout_chunks 3 cs
      else if c = CHR ''1'' then Std stdNumMonth # layout_chunks 0 cs
      else if c = CHR ''2'' then Std stdDay # layout_chunks 0 cs
      else lit_cons c (layout_chunks 0 cs))"

text \<open>\<^verbatim>\<open>skip(value, prefix)\<close>: the literal text must be there; a space of the layout
  stands for any run of spaces, also an empty one at the end of the value.\<close>

definition cutspace :: "string \<Rightarrow> string" where
  "cutspace s = dropWhile (\<lambda>c. c = CHR '' '') s"

function skip :: "string \<Rightarrow> string \<Rightarrow> string option" where
  "skip v [] = Some v"
| "skip v (p # ps) =
     (if p = CHR '' '' then
        (if v \<noteq> [] \<and> hd v \<noteq> CHR '' '' then None else skip (cutspace v) (cutspace ps))
      else (case v of [] \<Rightarrow> None | c # cs \<Rightarrow> if c \<noteq> p then None else skip cs ps))"
  by pat_completeness auto
termination
  by (relation "measure (\<lambda>(v, p). length p)")
     (auto simp: cutspace_def le_imp_less_Suc length_dropWhile_le)

declare skip.simps [simp del]

text \<open>\<^verbatim>\<open>getnum(s, fixed)\<close>: one or two digits, exactly two when \<open>fixed\<close>.\<close>

definition getnum :: "string \<Rightarrow> bool \<Rightarrow> (int \<times> string) option" where
  "getnum s fixed =
     (case s of
        [] \<Rightarrow> None
      | a # r \<Rightarrow>
          if \<not> isDigit a then None
          else (case r of
                  [] \<Rightarrow> if fixed then None else Some (int (digit_val a), r)
                | b # r' \<Rightarrow>
                    if isDigit b then Some (int (digit_val a) * 10 + int (digit_val b), r')
                    else if fixed then None else Some (int (digit_val a), r)))"

text \<open>\<^verbatim>\<open>atoi\<close> of the package: an optional sign and then digits only.\<close>

definition digits_val :: "string \<Rightarrow> int" where
  "digits_val s = foldl (\<lambda>n c. n * 10 + int (digit_val c)) 0 s"

definition atoi :: "string \<Rightarrow> int option" where
  "atoi s =
     (let neg = (s \<noteq> [] \<and> hd s = CHR ''-'');
          r = (if s \<noteq> [] \<and> (hd s = CHR ''-'' \<or> hd s = CHR ''+'') then tl s else s)
      in if list_all isDigit r then Some (if neg then - digits_val r else digits_val r) else None)"

text \<open>\<^verbatim>\<open>match\<close> and \<^verbatim>\<open>lookup\<close>: month names are compared without regard to the case of
  ASCII letters.\<close>

definition or_0x20 :: "char \<Rightarrow> nat" where
  "or_0x20 c = (let n = of_char c in if (n div 32) mod 2 = 0 then n + 32 else n)"

definition match_char :: "char \<Rightarrow> char \<Rightarrow> bool" where
  "match_char c1 c2 =
     (c1 = c2 \<or> (or_0x20 c1 = or_0x20 c2 \<and> 97 \<le> or_0x20 c1 \<and> or_0x20 c1 \<le> 122))"

definition match :: "string \<Rightarrow> string \<Rightarrow> bool" where
  "match s1 s2 = (length s1 = length s2 \<and> list_all (\<lambda>(a, b). match_char a b) (zip s1 s2))"

fun lookup :: "string list \<Rightarrow> int \<Rightarrow> string \<Rightarrow> (int \<times> string) option" where
  "lookup [] i val = None"
| "lookup (v # tab) i val =
     (if length v \<le> length val \<and> match (take (length v) val) v
      then Some (i, drop (length v) val)
      else lookup tab (i + 1) val)"

definition shortMonthNames :: "string list" where
  "shortMonthNames =
     [''Jan'', ''Feb'', ''Mar'', ''Apr'', ''May'', ''Jun'',
      ''Jul'', ''Aug'', ''Sep'', ''Oct'', ''Nov'', ''Dec'']"

definition longMonthNames :: "string list" where
  "longMonthNames =
     [''January'', ''February'', ''March'', ''April'', ''May'', ''June'',
      ''July'', ''August'', ''September'', ''October'', ''November'', ''December'']"

text \<open>The fields read so far: year, month and day (the last two start at \<open>-1\<close>).\<close>

record parsed =
  p_year :: int
  p_month :: int
  p_day :: int

text \<open>One element of the layout read from the value: the rest of the value and the
  fields, or \<open>None\<close> for a parse error.\<close>

definition parse_std :: "layout_std \<Rightarrow> string \<Rightarrow> parsed \<Rightarrow> (string \<times> parsed) option" where
  "parse_std std v st =
     (case std of
        stdYear \<Rightarrow>
          if length v < 2 then None
          else (case atoi (take 2 v) of
                  None \<Rightarrow> None
                | Some y \<Rightarrow> Some (drop 2 v, st\<lparr>p_year := (if 69 \<le> y then y + 1900 else y + 2000)\<rparr>))
      | stdLongYear \<Rightarrow>
          if length v < 4 \<or> \<not> isDigit (hd v) then None
          else (case atoi (take 4 v) of
                  None \<Rightarrow> None
                | Some y \<Rightarrow> Some (drop 4 v, st\<lparr>p_year := y\<rparr>))
      | stdMonth \<Rightarrow>
          (case lookup shortMonthNames 0 v of
             None \<Rightarrow> None
           | Some (i, r) \<Rightarrow> Some (r, st\<lparr>p_month := i + 1\<rparr>))
      | stdLongMonth \<Rightarrow>
          (case lookup longMonthNames 0 v of
             None \<Rightarrow> None
           | Some (i, r) \<Rightarrow> Some (r, st\<lparr>p_month := i + 1\<rparr>))
      | stdNumMonth \<Rightarrow>
          (case getnum v False of
             None \<Rightarrow> None
           | Some (m, r) \<Rightarrow> if m \<le> 0 \<or> 12 < m then None else Some (r, st\<lparr>p_month := m\<rparr>))
      | stdZeroMonth \<Rightarrow>
          (case getnum v True of
             None \<Rightarrow> None
           | Some (m, r) \<Rightarrow> if m \<le> 0 \<or> 12 < m then None else Some (r, st\<lparr>p_month := m\<rparr>))
      | stdDay \<Rightarrow>
          (case getnum v False of
             None \<Rightarrow> None
           | Some (d, r) \<Rightarrow> Some (r, st\<lparr>p_day := d\<rparr>))
      | stdZeroDay \<Rightarrow>
          (case getnum v True of
             None \<Rightarrow> None
           | Some (d, r) \<Rightarrow> Some (r, st\<lparr>p_day := d\<rparr>)))"

fun parse_chunks :: "layout_chunk list \<Rightarrow> string \<Rightarrow> parsed \<Rightarrow> parsed option" where
  "parse_chunks [] v st = (if v \<noteq> [] then None else Some st)"
| "parse_chunks (Lit p # cs) v st =
     (case skip v p of None \<Rightarrow> None | Some v' \<Rightarrow> parse_chunks cs v' st)"
| "parse_chunks (Std e # cs) v st =
     (case parse_std e v st of None \<Rightarrow> None | Some (v', st') \<Rightarrow> parse_chunks cs v' st')"

text \<open>\<^verbatim>\<open>time.Parse(layout, value)\<close>: \<open>None\<close> is a non-nil error. A month or day that the
  layout does not set is 1; the day must exist in the month.\<close>

definition time_Parse :: "string \<Rightarrow> string \<Rightarrow> Time option" where
  "time_Parse layout v =
     (case parse_chunks (layout_chunks 0 layout) v \<lparr>p_year = 0, p_month = - 1, p_day = - 1\<rparr> of
        None \<Rightarrow> None
      | Some st \<Rightarrow>
          (let month = (if p_month st < 0 then 1 else p_month st);
               day = (if p_day st < 0 then 1 else p_day st)
           in if day < 1 \<or> daysIn month (p_year st) < day then None
              else Some (Date (p_year st) month day 0 0 0 0)))"

subsection \<open>internal/models: dividend events\<close>

text \<open>
  \<^verbatim>\<open>type DividendEvent struct { Symbol string; ExDate, PayDate, DeclareDate time.Time;
  Amount float64; Group, Frequency string; Yield float64 }\<close>
  A \<^verbatim>\<open>float64\<close> is modelled as the real number it denotes: rounding, infinities and
  NaN are not modelled. \<^verbatim>\<open>strconv.ParseFloat\<close> is the parameter \<open>pf\<close> of the functions that
  call it, \<open>None\<close> standing for a non-nil error.
\<close>

record DividendEvent =
  Symbol :: string
  ExDate :: Time
  PayDate :: Time
  DeclareDate :: Time
  Amount :: real
  Group :: string
  Frequency :: string
  Yield :: real

definition new_event :: "string \<Rightarrow> DividendEvent" where
  "new_event symbol =
     \<lparr>Symbol = symbol, ExDate = 0, PayDate = 0, DeclareDate = 0, Amount = 0,
      Group = [], Frequency = [], Yield = 0\<rparr>"



subsection \<open>DividendTableScraper: amounts, dates and table rows\<close>









subsection \<open>ETFDetailScraper (internal/scraper/etf\_detail\_scraper.go)\<close>

text \<open>The regular expression \<^verbatim>\<open>[^0-9.]\<close> replaced by the empty string: only digits and
  points are kept.\<close>

definition keep_numeric :: "string \<Rightarrow> string" where
  "keep_numeric s = filter (\<lambda>c. isDigit c \<or> c = CHR ''.'') s"

text \<open>\<open>parseAmount\<close> returns \<open>(float64, error)\<close>: \<open>None\<close> is a non-nil error.\<close>

definition parseAmount :: "(string \<Rightarrow> real option) \<Rightarrow> string \<Rightarrow> real option" where
  "parseAmount pf s =
     (let cleaned = keep_numeric s
      in if cleaned = [] then None else pf cleaned)"

definition parsePrice :: "(string \<Rightarrow> real option) \<Rightarrow> string \<Rightarrow> real option" where
  "parsePrice pf s = parseAmount pf s"






subsection \<open>YieldMaxFullScraper\<close>











subsection \<open>The group table and the page a scraper visits\<close>






subsection \<open>DividendTableScraper.ScrapeDividendHistory\<close>










subsection \<open>ImprovedYieldMaxScraper: the upcoming events of a schedule\<close>

text \<open>
  \<open>filterUpcomingEvents\<close> reads the clock once for the cutoff and once for every event.
  The clock is the function \<open>clk\<close>: \<open>clk i\<close> is the \<open>i\<close>-th reading, from 0.
\<close>

fun filterUpcomingEvents_loop ::
  "(nat \<Rightarrow> Time) \<Rightarrow> nat \<Rightarrow> DividendEvent list \<Rightarrow> Time \<Rightarrow> DividendEvent list \<Rightarrow>
   DividendEvent list" where
  "filterUpcomingEvents_loop clk i [] cutoff upcoming = upcoming"
| "filterUpcomingEvents_loop clk i (event # events) cutoff upcoming =
     (if After (ExDate event) (clk i) \<and> Before (ExDate event) cutoff
        then filterUpcomingEvents_loop clk (i + 1) events cutoff (upcoming @ [event])
      else filterUpcomingEvents_loop clk (i + 1) events cutoff upcoming)"

definition filterUpcomingEvents ::
  "(nat \<Rightarrow> Time) \<Rightarrow> DividendEvent list \<Rightarrow> int \<Rightarrow> DividendEvent list" where
  "filterUpcomingEvents clk events days =
     (let cutoff = AddDate (clk 0) 0 0 days
      in filterUpcomingEvents_loop clk 1 events cutoff [])"

record GroupSchedule =
  schedule_Group :: string
  schedule_Frequency :: string
  ETFs :: "string list"
  NextExDate :: string
  NextPayDate :: string
  schedule_Events :: "DividendEvent list"

record Schedule =
  schedule_UpdatedAt :: Time
  Groups :: "GroupSchedule list"
  Upcoming :: "DividendEvent list"

text \<open>
  The end of \<open>GetScheduleImproved\<close>. The visit of the schedule page, the events that the
  table parsers and \<open>generateSyntheticEvents\<close> gather and the group schedules that
  \<open>buildGroupSchedules\<close> makes of them are inputs: \<open>visit_err\<close> is the error of the visit
  (\<open>None\<close> for \<^verbatim>\<open>nil\<close>), \<open>upcomingEvents\<close> and \<open>groupSchedules\<close> the two lists. The clock
  readings here are those that follow: one for \<open>UpdatedAt\<close>, then those of the filter.
\<close>

definition GetScheduleImproved ::
  "(nat \<Rightarrow> Time) \<Rightarrow> string option \<Rightarrow> DividendEvent list \<Rightarrow> GroupSchedule list \<Rightarrow>
   string + Schedule" where
  "GetScheduleImproved clk visit_err upcomingEvents groupSchedules =
     (case visit_err of
        Some err \<Rightarrow>
          Inl (''failed to visit https://www.yieldmaxetfs.com/distribution-schedule/: '' @ err)
      | None \<Rightarrow>
          Inr \<lparr>schedule_UpdatedAt = clk 0, Groups = groupSchedules,
               Upcoming = filterUpcomingEvents (\<lambda>i. clk (i + 1)) upcomingEvents 30\<rparr>)"

subsection \<open>Files\<close>

text \<open>
  The part of the operating system the programs use: the files by path, and the paths
  that cannot be opened, created or written (a permission error). A call that fails
  on such a path leaves the files as they are; a failure in the middle of a write is
  not modelled. \<^verbatim>\<open>filepath.Join\<close> is modelled for elements that need no cleaning.
\<close>

record os_state =
  files :: "string \<rightharpoonup> string"
  denied :: "string \<Rightarrow> bool"

definition filepath_Join :: "string \<Rightarrow> string \<Rightarrow> string" where
  "filepath_Join dir name = dir @ ''/'' @ name"

definition os_Remove :: "os_state \<Rightarrow> string \<Rightarrow> os_state" where
  "os_Remove os path = os\<lparr>files := (files os)(path := None)\<rparr>"


subsection \<open>internal/cache/file\_cache.go: Set and Get\<close>

text \<open>
  \<^verbatim>\<open>type CacheEntry struct { Data interface{}; CreatedAt, ExpiresAt time.Time; Key string }\<close>
  The type of the data is a parameter. The functions of \<open>encoding/json\<close> are parameters:
  \<open>encode\<close> is \<^verbatim>\<open>json.NewEncoder(file).Encode(entry)\<close> (the bytes written, or an error),
  and a \<open>json_codec\<close> holds the three that \<open>Get\<close> calls: \<open>decode_entry\<close> is
  \<^verbatim>\<open>json.NewDecoder(file).Decode(&entry)\<close>, \<open>marshal\<close> is \<^verbatim>\<open>json.Marshal(entry.Data)\<close> and
  \<open>unmarshal\<close> is \<^verbatim>\<open>json.Unmarshal(dataBytes, target)\<close>, which returns the target as it
  leaves it and whether it succeeded.
\<close>

record 'd CacheEntry =
  Data :: 'd
  CreatedAt :: Time
  ExpiresAt :: Time
  Key :: string

record ('d, 't) json_codec =
  decode_entry :: "string \<Rightarrow> 'd CacheEntry option"
  marshal :: "'d \<Rightarrow> string option"
  unmarshal :: "string \<Rightarrow> 't \<Rightarrow> 't \<times> bool"

datatype cache_error = CreateError | EncodeError | OpenError | MarshalError | UnmarshalError

definition getCacheFilePath :: "FileCache \<Rightarrow> string \<Rightarrow> string" where
  "getCacheFilePath fc key = filepath_Join (cacheDir fc) key"

text \<open>\<open>Set\<close>: \<open>now\<close> is its reading of the clock. \<^verbatim>\<open>os.Create\<close> empties the file before the
  entry is encoded.\<close>

definition FileCache_Set ::
  "('v CacheEntry \<Rightarrow> string option) \<Rightarrow> FileCache \<Rightarrow> Time \<Rightarrow> os_state \<Rightarrow> string \<Rightarrow> 'v \<Rightarrow>
   cache_error option \<times> os_state" where
  "FileCache_Set encode fc now os key data =
     (let entry = \<lparr>Data = data, CreatedAt = now, ExpiresAt = Add now (ttl fc), Key = key\<rparr>;
          filePath = getCacheFilePath fc key
      in if denied os filePath then (Some CreateError, os)
         else
           (let os1 = os\<lparr>files := (files os)(filePath \<mapsto> [])\<rparr>
            in case encode entry of
                 None \<Rightarrow> (Some EncodeError, os1)
               | Some bytes \<Rightarrow> (None, os1\<lparr>files := (files os1)(filePath \<mapsto> bytes)\<rparr>)))"

text \<open>\<open>Get\<close> returns \<open>(found, err)\<close>; the model adds the target as \<open>Get\<close> leaves it and the
  files after the call. \<open>now\<close> is the reading of the clock at the expiry check.\<close>

definition FileCache_Get ::
  "('d, 't) json_codec \<Rightarrow> FileCache \<Rightarrow> Time \<Rightarrow> os_state \<Rightarrow> string \<Rightarrow> 't \<Rightarrow>
   (bool \<times> cache_error option) \<times> 't \<times> os_state" where
  "FileCache_Get codec fc now os key target =
     (let filePath = getCacheFilePath fc key
      in if \<not> denied os filePath \<and> files os filePath = None then ((False, None), target, os)
         else if denied os filePath then ((False, Some OpenError), target, os)
         else
           (case decode_entry codec (the (files os filePath)) of
              None \<Rightarrow> ((False, None), target, os_Remove os filePath)
            | Some entry \<Rightarrow>
                if After now (ExpiresAt entry) then ((False, None), target, os_Remove os filePath)
                else
                  (case marshal codec (Data entry) of
                     None \<Rightarrow> ((False, Some MarshalError), target, os)
                   | Some dataBytes \<Rightarrow>
                       (let (target', ok) = unmarshal codec dataBytes target
                        in if \<not> ok then ((False, Some UnmarshalError), target', os)
                           else ((True, None), target', os)))))"

subsection \<open>The clients of the two data providers\<close>

text \<open>
  What a client does that the provider or the rate limiter can observe, in order: a wait
  for the refill of an empty bucket, the taking of a token, and a request.
\<close>

datatype api_event = Refill | AcquireToken | HttpGet string

text \<open>The answer to \<^verbatim>\<open>httpClient.Get\<close>: an error, or a status code and the body
  (\<open>None\<close> when reading it fails).\<close>

datatype http_result = HttpError string | HttpResponse int "string option"

datatype api_error =
    RequestFailed string | BadStatus int | ReadFailed | ParseFailed | NoData

text \<open>\<^verbatim>\<open>fmt.Sprintf("%d", n)\<close>.\<close>

function nat_digits :: "nat \<Rightarrow> string" where
  "nat_digits n =
     (if n < 10 then [char_of (48 + n)] else nat_digits (n div 10) @ [char_of (48 + n mod 10)])"
  by pat_completeness auto
termination
  by (relation "measure id") auto

declare nat_digits.simps [simp del]

definition itoa :: "int \<Rightarrow> string" where
  "itoa n = (if n < 0 then ''-'' @ nat_digits (nat (- n)) else nat_digits (nat n))"

subsubsection \<open>The rate limiter (internal/api/alpha\_vantage.go)\<close>








subsubsection \<open>The FMP client (FMPClient.GetDividendHistory)\<close>

record FMPDividendResponse =
  fmp_Symbol :: string
  fmp_Date :: string
  fmp_Label :: string
  AdjDividend :: real
  Dividend :: real
  RecordDate :: string
  PaymentDate :: string
  DeclarationDate :: string

text \<open>\<^verbatim>\<open>type FMPClient struct { apiKey, baseURL string; httpClient; logger; cache *cache.FileCache }\<close>:
  there is no rate limiter among its fields.\<close>

record FMPClient =
  fmp_apiKey :: string
  fmp_baseURL :: string
  fmp_cache :: FileCache

definition NewFMPClient :: "string \<Rightarrow> FMPClient" where
  "NewFMPClient apiKey =
     \<lparr>fmp_apiKey = apiKey, fmp_baseURL = ''https://financialmodelingprep.com/api/v3'',
      fmp_cache = \<lparr>cacheDir = ''cache/fmp'', ttl = 12 * 3600 * 1000000000\<rparr>\<rparr>"

text \<open>
  What the client calls outside the repository: the JSON functions of the cache, the
  HTTP client, the parsing of the response body into its \<^verbatim>\<open>historical\<close> list, and
  \<^verbatim>\<open>url.QueryEscape\<close>.
\<close>

record 'd fmp_env =
  fmp_codec :: "('d, DividendEvent list) json_codec"
  fmp_encode :: "(DividendEvent list) CacheEntry \<Rightarrow> string option"
  fmp_http_Get :: "string \<Rightarrow> http_result"
  fmp_parse_historical :: "string \<Rightarrow> FMPDividendResponse list option"
  fmp_QueryEscape :: "string \<Rightarrow> string"

text \<open>The body of the loop over the response: the event of one record, or \<open>None\<close> when
  the record is skipped.\<close>

definition shape_dividend :: "string \<Rightarrow> Time \<Rightarrow> FMPDividendResponse \<Rightarrow> DividendEvent option" where
  "shape_dividend symbol cutoffDate dv =
     (case time_Parse ''2006-01-02'' (fmp_Date dv) of
        None \<Rightarrow> None
      | Some exDate \<Rightarrow>
          if Before exDate cutoffDate then None
          else
            (let payDate0 =
                   (if PaymentDate dv \<noteq> [] then
                      (case time_Parse ''2006-01-02'' (PaymentDate dv) of
                         Some parsed \<Rightarrow> parsed | None \<Rightarrow> 0)
                    else 0);
                 declareDate0 =
                   (if DeclarationDate dv \<noteq> [] then
                      (case time_Parse ''2006-01-02'' (DeclarationDate dv) of
                         Some parsed \<Rightarrow> parsed | None \<Rightarrow> 0)
                    else 0);
                 payDate = (if IsZero payDate0 then AddDate exDate 0 0 14 else payDate0);
                 declareDate =
                   (if IsZero declareDate0 then AddDate exDate 0 0 (- 7) else declareDate0)
             in Some \<lparr>Symbol = symbol, ExDate = exDate, PayDate = payDate,
                      DeclareDate = declareDate, Amount = AdjDividend dv,
                      Group = [], Frequency = [], Yield = 0\<rparr>))"

fun shape_historical ::
  "string \<Rightarrow> Time \<Rightarrow> FMPDividendResponse list \<Rightarrow> DividendEvent list \<Rightarrow> DividendEvent list" where
  "shape_historical symbol cutoffDate [] events = events"
| "shape_historical symbol cutoffDate (dv # historical) events =
     (case shape_dividend symbol cutoffDate dv of
        None \<Rightarrow> shape_historical symbol cutoffDate historical events
      | Some event \<Rightarrow> shape_historical symbol cutoffDate historical (events @ [event]))"

text \<open>
  \<open>GetDividendHistory\<close> returns \<open>(events, err)\<close>; the model adds the files after the call
  and what the client did. The clock is read at most three times: \<open>clk 0\<close> is the
  reading of the cache's \<open>Get\<close>, \<open>clk 1\<close> the reading for the cutoff date and \<open>clk 2\<close> the
  reading of the cache's \<open>Set\<close>.
\<close>

definition FMPClient_GetDividendHistory ::
  "'d fmp_env \<Rightarrow> FMPClient \<Rightarrow> (nat \<Rightarrow> Time) \<Rightarrow> os_state \<Rightarrow> string \<Rightarrow> int \<Rightarrow>
   (DividendEvent list \<times> api_error option) \<times> os_state \<times> api_event list" where
  "FMPClient_GetDividendHistory env fmp clk os symbol years =
     (let cacheKey = ''dividend_history_'' @ symbol @ ''_'' @ itoa years;
          ((found, err), cachedEvents, os1) =
             FileCache_Get (fmp_codec env) (fmp_cache fmp) (clk 0) os cacheKey []
      in if err = None \<and> found then ((cachedEvents, None), os1, [])
         else
           (let requestURL = fmp_baseURL fmp @ ''/historical-price-full/stock_dividend/'' @ symbol
                               @ ''?'' @ ''apikey='' @ fmp_QueryEscape env (fmp_apiKey fmp)
            in case fmp_http_Get env requestURL of
                 HttpError e \<Rightarrow> (([], Some (RequestFailed e)), os1, [HttpGet requestURL])
               | HttpResponse status body \<Rightarrow>
                   if status \<noteq> 200 then (([], Some (BadStatus status)), os1, [HttpGet requestURL])
                   else
                     (case body of
                        None \<Rightarrow> (([], Some ReadFailed), os1, [HttpGet requestURL])
                      | Some b \<Rightarrow>
                          (case fmp_parse_historical env b of
                             None \<Rightarrow> (([], Some ParseFailed), os1, [HttpGet requestURL])
                           | Some historical \<Rightarrow>
                               (let cutoffDate = AddDate (clk 1) (- years) 0 0;
                                    events = shape_historical symbol cutoffDate historical [];
                                    (set_err, os2) =
                                       FileCache_Set (fmp_encode env) (fmp_cache fmp) (clk 2) os1
                                         cacheKey events
                                in ((events, None), os2, [HttpGet requestURL]))))))"

subsubsection \<open>The Alpha Vantage client (AlphaVantageClient.GetETFOverview)\<close>










subsection \<open>The optimized batch runner: the loop over the results\<close>









subsection \<open>Inputs for evaluation\<close>

text \<open>A clock that starts at noon of June 1, 2025 and advances by a nanosecond with each
  reading; an event with a given ex-date and amount; and a page with one
  dividend table of two rows.\<close>

definition example_clock :: "nat \<Rightarrow> Time" where
  "example_clock i = Date 2025 6 1 12 0 0 (int i)"

definition example_event :: "string \<Rightarrow> Time \<Rightarrow> real \<Rightarrow> DividendEvent" where
  "example_event symbol exDate amount = (new_event symbol)\<lparr>ExDate := exDate, Amount := amount\<rparr>"




definition empty_os :: os_state where
  "empty_os = \<lparr>files = Map.empty, denied = (\<lambda>p. False)\<rparr>"

text \<open>A provider that answers every request with \<open>body\<close>, which parses into
  \<open>historical\<close>, and JSON functions that write every entry as \<open>entry\<close> and read that
  content back as the given entry.\<close>

definition example_fmp_env ::
  "FMPDividendResponse list \<Rightarrow> (DividendEvent list) CacheEntry \<Rightarrow> (DividendEvent list) fmp_env" where
  "example_fmp_env historical entry =
     \<lparr>fmp_codec =
        \<lparr>decode_entry = (\<lambda>s. if s = ''entry'' then Some entry else None),
         marshal = (\<lambda>d. Some ''data''),
         unmarshal = (\<lambda>bytes target. if bytes = ''data'' then (Data entry, True) else (target, False))\<rparr>,
      fmp_encode = (\<lambda>e. Some ''entry''),
      fmp_http_Get = (\<lambda>url. HttpResponse 200 (Some ''body'')),
      fmp_parse_historical = (\<lambda>b. if b = ''body'' then Some historical else None),
      fmp_QueryEscape = (\<lambda>s. s)\<rparr>"

definition example_dividend :: "string \<Rightarrow> real \<Rightarrow> FMPDividendResponse" where
  "example_dividend date amount =
     \<lparr>fmp_Symbol = ''TSLY'', fmp_Date = date, fmp_Label = [], AdjDividend = amount,
      Dividend = amount, RecordDate = [], PaymentDate = [], DeclarationDate = []\<rparr>"

text \<open>
  Two calls of \<open>GetDividendHistory\<close> for one year of \<open>TSLY\<close>, three hours apart: the
  first, at 23:00 on June 1, 2025 with no files, fetches a dividend dated June 2, 2024;
  the second, at 02:00 on June 2, 2025, starts from the files the first has left. The
  JSON functions read the cache file back as the entry the first call wrote.
\<close>

definition evening_clock :: "nat \<Rightarrow> Time" where
  "evening_clock i = Date 2025 6 1 23 0 0 0"

definition night_clock :: "nat \<Rightarrow> Time" where
  "night_clock i = Date 2025 6 2 2 0 0 0"

definition example_shaped_event :: DividendEvent where
  "example_shaped_event =
     \<lparr>Symbol = ''TSLY'', ExDate = Date 2024 6 2 0 0 0 0, PayDate = Date 2024 6 16 0 0 0 0,
      DeclareDate = Date 2024 5 26 0 0 0 0, Amount = 1 / 2, Group = [], Frequency = [],
      Yield = 0\<rparr>"

definition example_entry :: "(DividendEvent list) CacheEntry" where
  "example_entry =
     \<lparr>Data = [example_shaped_event], CreatedAt = evening_clock 2,
      ExpiresAt = Add (evening_clock 2) (ttl (fmp_cache (NewFMPClient ''demo''))),
      Key = ''dividend_history_TSLY_1''\<rparr>"

definition example_first_call ::
  "(DividendEvent list \<times> api_error option) \<times> os_state \<times> api_event list" where
  "example_first_call =
     FMPClient_GetDividendHistory
       (example_fmp_env [example_dividend ''2024-06-02'' (1 / 2)] example_entry)
       (NewFMPClient ''demo'') evening_clock empty_os ''TSLY'' 1"

definition example_second_call ::
  "(DividendEvent list \<times> api_error option) \<times> os_state \<times> api_event list" where
  "example_second_call =
     FMPClient_GetDividendHistory
       (example_fmp_env [example_dividend ''2024-06-02'' (1 / 2)] example_entry)
       (NewFMPClient ''demo'') night_clock (fst (snd example_first_call)) ''TSLY'' 1"




section \<open>Properties\<close>

subsection \<open>Cache keys\<close>


lemma length_fmt_hex: "length (fmt_hex bs) = 2 * length bs"
  by (induction bs) (simp_all add: fmt_hex_def hex_byte_def)


subsection \<open>The retry loop of the worker\<close>

lemma scrapes_in_append: "scrapes_in (a @ b) = scrapes_in a + scrapes_in b"
  by (simp add: scrapes_in_def)

lemma scrapes_in_Scrape: "scrapes_in [Scrape s] = 1"
  by (simp add: scrapes_in_def)

lemma scrapes_in_retry: "scrapes_in [LogRetry w n s, Sleep d] = 0"
  by (simp add: scrapes_in_def)

lemma retry_loop_scrapes:
  "0 \<le> attempt \<Longrightarrow>
   scrapes_in (snd (retry_loop scr wid symbol attempt res tr))
     \<le> scrapes_in tr + nat (retryAttempts - attempt)"
proof (induction scr wid symbol attempt res tr rule: retry_loop.induct)
  case (1 scr wid symbol attempt res tr)
  show ?case
  proof (cases "attempt < retryAttempts")
    case False
    then show ?thesis by (subst retry_loop.simps) simp
  next
    case True
    note lt = True
    let ?res = "scr (scrapes_in tr) symbol"
    show ?thesis
    proof (cases "snd ?res = None")
      case True
      have "retry_loop scr wid symbol attempt res tr = (?res, tr @ [Scrape symbol])"
        using lt True by (subst retry_loop.simps) (simp add: Let_def)
      moreover have "1 \<le> nat (retryAttempts - attempt)" using lt by simp
      ultimately show ?thesis by (simp add: scrapes_in_append scrapes_in_Scrape)
    next
      case False
      note ne = False
      show ?thesis
      proof (cases "attempt < retryAttempts - 1")
        case True
        let ?tr = "(tr @ [Scrape symbol]) @ [LogRetry wid (attempt + 1) symbol, Sleep 2000]"
        have eq: "retry_loop scr wid symbol attempt res tr = retry_loop scr wid symbol (attempt + 1) ?res ?tr"
          using lt ne True by (subst retry_loop.simps) (auto simp: Let_def)
        from "1.IH"(1)[OF lt refl refl ne True] "1.prems"
        have "scrapes_in (snd (retry_loop scr wid symbol (attempt + 1) ?res ?tr))
              \<le> scrapes_in ?tr + nat (retryAttempts - (attempt + 1))" by simp
        moreover have "scrapes_in ?tr = scrapes_in tr + 1"
          by (simp add: scrapes_in_def)
        moreover have "nat (retryAttempts - attempt) = 1 + nat (retryAttempts - (attempt + 1))"
          using lt by simp
        ultimately show ?thesis unfolding eq by simp
      next
        case False
        let ?tr = "tr @ [Scrape symbol]"
        have eq: "retry_loop scr wid symbol attempt res tr = retry_loop scr wid symbol (attempt + 1) ?res ?tr"
          using lt ne False by (subst retry_loop.simps) (auto simp: Let_def)
        from "1.IH"(2)[OF lt refl refl ne False] "1.prems"
        have "scrapes_in (snd (retry_loop scr wid symbol (attempt + 1) ?res ?tr))
              \<le> scrapes_in ?tr + nat (retryAttempts - (attempt + 1))" by simp
        moreover have "scrapes_in ?tr = scrapes_in tr + 1"
          by (simp add: scrapes_in_append scrapes_in_Scrape)
        moreover have "nat (retryAttempts - attempt) = 1 + nat (retryAttempts - (attempt + 1))"
          using lt by simp
        ultimately show ?thesis unfolding eq by simp
      qed
    qed
  qed
qed

text \<open>For any scraper, the loop started at attempt 0 adds at most two scrapes.\<close>

lemma retry_loop_at_most_two:
  "scrapes_in (snd (retry_loop scr wid symbol 0 res tr)) \<le> scrapes_in tr + 2"
  using retry_loop_scrapes[of 0 scr wid symbol res tr] by (simp add: retryAttempts_def)

text \<open>
  C2. The claim is that a failed scrape is retried twice, three attempts in all, before
  the failure is reported. On a symbol whose every scrape fails the worker scrapes
  twice: the first attempt and one retry, after which it sends the failure.
\<close>

theorem worker_failing_symbol_two_scrapes:
  "worker (\<lambda>n symbol. (None :: unit option, Some ''timeout'')) 0 [''TSLY''] =
     [LogScraping 0 ''TSLY'', Scrape ''TSLY'', LogRetry 0 1 ''TSLY'', Sleep 2000,
      Scrape ''TSLY'', Send ''TSLY'' None (Some ''timeout''), Sleep 500]"
  by (simp add: worker_def worker_job_def retryAttempts_def scrapes_in_def retry_loop.simps)

subsection \<open>Amount parsers\<close>














subsection \<open>Dates of the dividend table\<close>







subsection \<open>Statistics of a dividend history\<close>










subsection \<open>Upcoming events\<close>

lemma filterUpcomingEvents_loop_window:
  assumes "\<forall>e \<in> set upcoming. (\<exists>j\<ge>i0. After (ExDate e) (clk j)) \<and> Before (ExDate e) cutoff \<and> e \<in> S"
      and "set events \<subseteq> S" and "i0 \<le> i"
  shows "\<forall>e \<in> set (filterUpcomingEvents_loop clk i events cutoff upcoming).
           (\<exists>j\<ge>i0. After (ExDate e) (clk j)) \<and> Before (ExDate e) cutoff \<and> e \<in> S"
  using assms
proof (induction events arbitrary: i upcoming)
  case Nil
  then show ?case by simp
next
  case (Cons event events)
  show ?case
  proof (cases "After (ExDate event) (clk i) \<and> Before (ExDate event) cutoff")
    case True
    have a: "\<forall>e \<in> set (upcoming @ [event]).
            (\<exists>j\<ge>i0. After (ExDate e) (clk j)) \<and> Before (ExDate e) cutoff \<and> e \<in> S"
      using Cons.prems True by auto
    have "\<forall>e \<in> set (filterUpcomingEvents_loop clk (i + 1) events cutoff (upcoming @ [event])).
            (\<exists>j\<ge>i0. After (ExDate e) (clk j)) \<and> Before (ExDate e) cutoff \<and> e \<in> S"
      by (rule Cons.IH[OF a]) (use Cons.prems in auto)
    with True show ?thesis by simp
  next
    case False
    have "\<forall>e \<in> set (filterUpcomingEvents_loop clk (i + 1) events cutoff upcoming).
            (\<exists>j\<ge>i0. After (ExDate e) (clk j)) \<and> Before (ExDate e) cutoff \<and> e \<in> S"
      by (rule Cons.IH[OF Cons.prems(1)]) (use Cons.prems in auto)
    with False show ?thesis by auto
  qed
qed

text \<open>
  C10. With a clock that does not go back, every event of the \<open>Upcoming\<close> list of the
  schedule that \<open>GetScheduleImproved\<close> returns is one of the gathered events and has an
  ex-date after the current time (the reading of the clock when the filter starts), so
  also after \<open>UpdatedAt\<close>, and before that time plus 30 days: an event outside the window
  is not in the list.
\<close>

theorem GetScheduleImproved_upcoming_window:
  assumes "mono clk"
      and "GetScheduleImproved clk visit_err upcomingEvents groupSchedules = Inr schedule"
  shows "\<forall>e \<in> set (Upcoming schedule).
           After (ExDate e) (clk 1) \<and> Before (ExDate e) (AddDate (clk 1) 0 0 30)
           \<and> After (ExDate e) (schedule_UpdatedAt schedule) \<and> e \<in> set upcomingEvents"
proof -
  let ?clk = "\<lambda>i. clk (i + 1)"
  from assms(2) have u: "Upcoming schedule = filterUpcomingEvents ?clk upcomingEvents 30"
    and t: "schedule_UpdatedAt schedule = clk 0"
    by (auto split: option.splits simp: GetScheduleImproved_def)
  have w: "\<forall>e \<in> set (Upcoming schedule).
          (\<exists>j\<ge>0. After (ExDate e) (?clk j)) \<and> Before (ExDate e) (AddDate (?clk 0) 0 0 30)
          \<and> e \<in> set upcomingEvents"
    unfolding u filterUpcomingEvents_def Let_def
    by (rule filterUpcomingEvents_loop_window) simp_all
  show ?thesis
  proof
    fix e assume "e \<in> set (Upcoming schedule)"
    with w obtain j where j: "After (ExDate e) (clk (j + 1))"
      and b: "Before (ExDate e) (AddDate (clk 1) 0 0 30)" and m: "e \<in> set upcomingEvents"
      by auto
    from assms(1) have "clk 1 \<le> clk (j + 1)" and "clk 0 \<le> clk (j + 1)"
      by (simp_all add: monoD)
    with j b m t show "After (ExDate e) (clk 1) \<and> Before (ExDate e) (AddDate (clk 1) 0 0 30)
           \<and> After (ExDate e) (schedule_UpdatedAt schedule) \<and> e \<in> set upcomingEvents"
      by (simp add: After_def)
  qed
qed

lemma example_upcoming:
  "Upcoming (projr (GetScheduleImproved example_clock None
        [example_event ''TSLY'' (Date 2025 6 11 0 0 0 0) 0.15,
         example_event ''TSLY'' (Date 2025 8 6 0 0 0 0) 0.15,
         example_event ''TSLY'' (Date 2025 5 28 0 0 0 0) 0.15] []))
   = [example_event ''TSLY'' (Date 2025 6 11 0 0 0 0) 0.15]"
  by code_simp

lemma mono_example_clock: "mono example_clock"
  by (simp add: mono_def example_clock_def Date_def)

theorem GetScheduleImproved_upcoming_window_witness:
  "mono example_clock
   \<and> Upcoming (projr (GetScheduleImproved example_clock None
        [example_event ''TSLY'' (Date 2025 6 11 0 0 0 0) 0.15,
         example_event ''TSLY'' (Date 2025 8 6 0 0 0 0) 0.15,
         example_event ''TSLY'' (Date 2025 5 28 0 0 0 0) 0.15] []))
     = [example_event ''TSLY'' (Date 2025 6 11 0 0 0 0) 0.15]
   \<and> After (ExDate (example_event ''TSLY'' (Date 2025 6 11 0 0 0 0) 0.15)) (example_clock 1)
   \<and> Before (ExDate (example_event ''TSLY'' (Date 2025 6 11 0 0 0 0) 0.15))
        (AddDate (example_clock 1) 0 0 30)"
proof -
  let ?evs = "[example_event ''TSLY'' (Date 2025 6 11 0 0 0 0) 0.15,
         example_event ''TSLY'' (Date 2025 8 6 0 0 0 0) 0.15,
         example_event ''TSLY'' (Date 2025 5 28 0 0 0 0) 0.15]"
  let ?R = "GetScheduleImproved example_clock None ?evs []"
  have r: "?R = Inr (projr ?R)" by (simp add: GetScheduleImproved_def)
  from GetScheduleImproved_upcoming_window[OF mono_example_clock r] example_upcoming
  show ?thesis using mono_example_clock by simp
qed

subsection \<open>The file cache\<close>











subsection \<open>Dividend history of the FMP client\<close>

lemma shape_historical_set:
  "set (shape_historical symbol cutoffDate historical events) =
     set events \<union> {e. \<exists>dv \<in> set historical. shape_dividend symbol cutoffDate dv = Some e}"
  by (induction historical arbitrary: events) (auto split: option.splits)

lemma shape_dividend_spec:
  assumes "shape_dividend symbol cutoffDate dv = Some e"
  shows "time_Parse ''2006-01-02'' (fmp_Date dv) = Some (ExDate e)"
    and "\<not> Before (ExDate e) cutoffDate"
    and "Amount e = AdjDividend dv"
    and "Symbol e = symbol"
    and "PaymentDate dv = [] \<or> time_Parse ''2006-01-02'' (PaymentDate dv) = None \<Longrightarrow>
           PayDate e = AddDate (ExDate e) 0 0 14"
    and "DeclarationDate dv = [] \<or> time_Parse ''2006-01-02'' (DeclarationDate dv) = None \<Longrightarrow>
           DeclareDate e = AddDate (ExDate e) 0 0 (- 7)"
  using assms
  by (auto simp: shape_dividend_def Let_def IsZero_def split: option.splits if_splits)

lemma GetDividendHistory_paths:
  assumes "FMPClient_GetDividendHistory env fmp clk os symbol years = ((events, err), os', tr)"
  shows "(tr = [] \<and> err = None \<and>
          fst (fst (FileCache_Get (fmp_codec env) (fmp_cache fmp) (clk 0) os
                 (''dividend_history_'' @ symbol @ ''_'' @ itoa years) [])) \<and>
          events = fst (snd (FileCache_Get (fmp_codec env) (fmp_cache fmp) (clk 0) os
                 (''dividend_history_'' @ symbol @ ''_'' @ itoa years) [])))
       \<or> (\<exists>url. tr = [HttpGet url] \<and> err \<noteq> None \<and> events = [])
       \<or> (\<exists>url b historical. tr = [HttpGet url] \<and> err = None \<and>
             fmp_http_Get env url = HttpResponse 200 (Some b) \<and>
             fmp_parse_historical env b = Some historical \<and>
             events = shape_historical symbol (AddDate (clk 1) (- years) 0 0) historical [])"
  using assms
  by (auto simp: FMPClient_GetDividendHistory_def Let_def
           split: prod.splits if_splits http_result.splits option.splits)

text \<open>
  C6, amended. A call of \<open>GetDividendHistory\<close> either returns the cached list as the
  cache's \<open>Get\<close> gives it, without a request, or makes one request and returns an error
  with no events, or returns the events shaped from the records of the response. Each
  of these events comes from a record whose date parses as \<open>YYYY-MM-DD\<close> into its
  \<open>ExDate\<close>, which is not before the current time (the reading of the clock for the
  cutoff) minus \<open>years\<close> years; its \<open>Amount\<close> is the record's \<open>AdjDividend\<close>; its \<open>PayDate\<close> is
  the \<open>ExDate\<close> plus 14 days when the record's \<open>PaymentDate\<close> is empty or does not parse,
  and its \<open>DeclareDate\<close> the \<open>ExDate\<close> minus 7 days when the \<open>DeclarationDate\<close> is empty
  or does not parse.
\<close>

theorem GetDividendHistory_shapes_events:
  assumes "FMPClient_GetDividendHistory env fmp clk os symbol years = ((events, err), os', tr)"
  shows "(tr = [] \<and> err = None \<and>
          fst (fst (FileCache_Get (fmp_codec env) (fmp_cache fmp) (clk 0) os
                 (''dividend_history_'' @ symbol @ ''_'' @ itoa years) [])) \<and>
          events = fst (snd (FileCache_Get (fmp_codec env) (fmp_cache fmp) (clk 0) os
                 (''dividend_history_'' @ symbol @ ''_'' @ itoa years) [])))
       \<or> (\<exists>url. tr = [HttpGet url] \<and> err \<noteq> None \<and> events = [])
       \<or> (\<exists>url b historical. tr = [HttpGet url] \<and> err = None \<and>
             fmp_http_Get env url = HttpResponse 200 (Some b) \<and>
             fmp_parse_historical env b = Some historical \<and>
             (\<forall>e \<in> set events. \<exists>dv \<in> set historical.
                 time_Parse ''2006-01-02'' (fmp_Date dv) = Some (ExDate e) \<and>
                 \<not> Before (ExDate e) (AddDate (clk 1) (- years) 0 0) \<and>
                 Amount e = AdjDividend dv \<and>
                 Symbol e = symbol \<and>
                 (PaymentDate dv = [] \<or> time_Parse ''2006-01-02'' (PaymentDate dv) = None \<longrightarrow>
                    PayDate e = AddDate (ExDate e) 0 0 14) \<and>
                 (DeclarationDate dv = [] \<or> time_Parse ''2006-01-02'' (DeclarationDate dv) = None \<longrightarrow>
                    DeclareDate e = AddDate (ExDate e) 0 0 (- 7))))"
proof -
  note P = GetDividendHistory_paths[OF assms]
  {
    fix url b historical
    assume ev: "events = shape_historical symbol (AddDate (clk 1) (- years) 0 0) historical []"
    have "\<forall>e \<in> set events. \<exists>dv \<in> set historical.
                 time_Parse ''2006-01-02'' (fmp_Date dv) = Some (ExDate e) \<and>
                 \<not> Before (ExDate e) (AddDate (clk 1) (- years) 0 0) \<and>
                 Amount e = AdjDividend dv \<and>
                 Symbol e = symbol \<and>
                 (PaymentDate dv = [] \<or> time_Parse ''2006-01-02'' (PaymentDate dv) = None \<longrightarrow>
                    PayDate e = AddDate (ExDate e) 0 0 14) \<and>
                 (DeclarationDate dv = [] \<or> time_Parse ''2006-01-02'' (DeclarationDate dv) = None \<longrightarrow>
                    DeclareDate e = AddDate (ExDate e) 0 0 (- 7))"
    proof
      fix e assume "e \<in> set events"
      with ev obtain dv where dv: "dv \<in> set historical"
        and s: "shape_dividend symbol (AddDate (clk 1) (- years) 0 0) dv = Some e"
        by (auto simp: shape_historical_set)
      from shape_dividend_spec[OF s] dv
      show "\<exists>dv \<in> set historical.
                 time_Parse ''2006-01-02'' (fmp_Date dv) = Some (ExDate e) \<and>
                 \<not> Before (ExDate e) (AddDate (clk 1) (- years) 0 0) \<and>
                 Amount e = AdjDividend dv \<and>
                 Symbol e = symbol \<and>
                 (PaymentDate dv = [] \<or> time_Parse ''2006-01-02'' (PaymentDate dv) = None \<longrightarrow>
                    PayDate e = AddDate (ExDate e) 0 0 14) \<and>
                 (DeclarationDate dv = [] \<or> time_Parse ''2006-01-02'' (DeclarationDate dv) = None \<longrightarrow>
                    DeclareDate e = AddDate (ExDate e) 0 0 (- 7))"
        by (intro bexI[of _ dv]) auto
    qed
  } note shaped = this
  from P show ?thesis
  proof (elim disjE exE conjE)
    fix url b historical
    assume "tr = [HttpGet url]" "err = None" "fmp_http_Get env url = HttpResponse 200 (Some b)"
      "fmp_parse_historical env b = Some historical"
      "events = shape_historical symbol (AddDate (clk 1) (- years) 0 0) historical []"
    with shaped[OF this(5)] show ?thesis by (intro disjI2 exI[of _ url] exI[of _ b] exI[of _ historical] conjI)
  qed auto
qed

lemma example_first_call_trace: "snd (snd example_first_call) \<noteq> []"
  by code_simp

lemma example_first_call_events: "fst example_first_call = ([example_shaped_event], None)"
  by code_simp

theorem GetDividendHistory_shapes_events_witness:
  "fst example_first_call = ([example_shaped_event], None)
   \<and> snd (snd example_first_call) \<noteq> []
   \<and> \<not> Before (ExDate example_shaped_event) (AddDate (evening_clock 1) (- 1) 0 0)
   \<and> Symbol example_shaped_event = ''TSLY''"
proof -
  let ?env = "example_fmp_env [example_dividend ''2024-06-02'' (1 / 2)] example_entry"
  have call: "FMPClient_GetDividendHistory ?env (NewFMPClient ''demo'') evening_clock empty_os
                ''TSLY'' 1
              = (([example_shaped_event], None), fst (snd example_first_call),
                 snd (snd example_first_call))"
    using example_first_call_events
    by (simp add: example_first_call_def prod_eq_iff)
  note T = GetDividendHistory_shapes_events[OF call]
  have w: "\<not> Before (ExDate example_shaped_event) (AddDate (evening_clock 1) (- 1) 0 0)
           \<and> Symbol example_shaped_event = ''TSLY''"
    using T
  proof (elim disjE exE conjE)
    assume "snd (snd example_first_call) = []"
    with example_first_call_trace show ?thesis by simp
  next
    fix url assume "[example_shaped_event] = []"
    then show ?thesis by simp
  next
    fix url b historical
    assume "\<forall>e \<in> set [example_shaped_event]. \<exists>dv \<in> set historical.
                 time_Parse ''2006-01-02'' (fmp_Date dv) = Some (ExDate e) \<and>
                 \<not> Before (ExDate e) (AddDate (evening_clock 1) (- 1) 0 0) \<and>
                 Amount e = AdjDividend dv \<and>
                 Symbol e = ''TSLY'' \<and>
                 (PaymentDate dv = [] \<or> time_Parse ''2006-01-02'' (PaymentDate dv) = None \<longrightarrow>
                    PayDate e = AddDate (ExDate e) 0 0 14) \<and>
                 (DeclarationDate dv = [] \<or> time_Parse ''2006-01-02'' (DeclarationDate dv) = None \<longrightarrow>
                    DeclareDate e = AddDate (ExDate e) 0 0 (- 7))"
    then show ?thesis by auto
  qed
  with example_first_call_events example_first_call_trace show ?thesis by simp
qed

text \<open>
  C6, as claimed: every event returned has an \<open>ExDate\<close> no earlier than the current time
  minus \<open>years\<close> years. The first call fetches and caches an event dated June 2, 2024;
  the second call, three hours later, returns it from the cache without a request,
  and its \<open>ExDate\<close> is before the current time of that call minus one year.
\<close>

theorem GetDividendHistory_cached_event_before_cutoff:
  "fst example_first_call = ([example_shaped_event], None)
   \<and> files (fst (snd example_first_call)) ''cache/fmp/dividend_history_TSLY_1'' = Some ''entry''
   \<and> fst example_second_call = ([example_shaped_event], None)
   \<and> snd (snd example_second_call) = []
   \<and> Before (ExDate example_shaped_event) (AddDate (night_clock 1) (- 1) 0 0)"
  by code_simp

subsection \<open>Rate limiting of the API clients\<close>










subsection \<open>The loop over the results of the batch runner\<close>















end
